theory Spec2Isabelle
  imports Main
begin

section \<open>Data model of the relay (backend/main.py)\<close>

text \<open>
  A Python \<open>str\<close> is a sequence of Unicode code points; slicing and concatenation count
  code points. It is modelled as a list of code points (natural numbers). \<open>lit\<close> turns
  an ASCII literal of the source into that representation.
\<close>

type_synonym pystr = "nat list"

definition lit :: "string \<Rightarrow> pystr" where
  "lit s = map of_char s"

text \<open>
  JSON values, as FastAPI hands a parsed request body to pydantic and as it serialises the
  dictionary a handler returns. An object is the association list of its fields.
\<close>

datatype json =
    JNull
  | JBool bool
  | JInt int
  | JStr pystr
  | JArr "json list"
  | JObj "(pystr \<times> json) list"

text \<open>\<open>class Message(BaseModel)\<close> and \<open>class QueryRequest(BaseModel)\<close>.\<close>

record Message =
  role :: pystr
  content :: pystr

record QueryRequest =
  query :: pystr
  history :: "Message list"

text \<open>
  The two LangChain message classes the history is converted to; each carries its
  \<open>content\<close>.
\<close>

datatype lc_message = HumanMessage pystr | AIMessage pystr

text \<open>
  One raw search result: a Python dictionary from keys to text, as the search tool
  returns it. A key may be missing, so it is a partial map.
\<close>

type_synonym SearchResult = "pystr \<rightharpoonup> pystr"

text \<open>
  Exceptions of class \<open>Exception\<close> that can reach the handler's \<open>except\<close> clause:
  the \<open>KeyError\<close> of a dictionary subscript, and any other exception (raised by a
  provider), identified by the text \<open>str(e)\<close> gives for it.
\<close>

datatype exn = KeyError pystr | OtherException pystr

text \<open>
  \<open>str(e)\<close>. For a \<open>KeyError\<close> it is the \<open>repr\<close> of the key, which for the keys
  the handler subscripts with (\<open>content\<close>, \<open>url\<close>) is the key between single quotes.
\<close>

fun str_exn :: "exn \<Rightarrow> pystr" where
  "str_exn (KeyError k) = lit [CHR 0x27] @ k @ lit [CHR 0x27]"
| "str_exn (OtherException m) = m"

text \<open>\<open>HTTPException(status_code, detail)\<close>.\<close>

datatype http_exception = HTTPException nat pystr

text \<open>
  The dictionary passed to \<open>chain.invoke\<close>, with the keys \<open>context\<close>, \<open>question\<close> and
  \<open>chat_history\<close>: the three variables of the prompt template.
\<close>

record ChainInput =
  inp_context :: pystr
  inp_question :: pystr
  inp_chat_history :: "lc_message list"

text \<open>
  The two external collaborators are parameters of the model. The search tool is called
  with its configured result cap and the query; the chain (prompt, model, output parser)
  is called with its input dictionary and gives the answer text. Either may raise.
\<close>

type_synonym search_provider = "nat \<Rightarrow> pystr \<Rightarrow> exn + SearchResult list"
type_synonym chain_provider = "ChainInput \<Rightarrow> exn + pystr"

text \<open>
  What a request does besides returning: the calls to the two providers and the line
  printed by the \<open>except\<close> clause, in the order they happen.
\<close>

datatype event =
    SearchInvoke nat pystr
  | ChainInvoke ChainInput
  | Print pystr

section \<open>Configuration\<close>

text \<open>\<open>search_tool = TavilySearchResults(max_results=3)\<close>.\<close>

definition max_results :: nat where
  "max_results = 3"

section \<open>Request validation\<close>

text \<open>
  pydantic's validation of a parsed JSON body against the declared fields:
  \<open>query: str\<close> is required and must be a JSON string; \<open>history: List[Message] = []\<close>
  may be absent and then is the empty list, and otherwise must be an array of objects with
  the string fields \<open>role\<close> and \<open>content\<close>. The declarations carry no further constraint
  (no minimum length, no pattern, no enumeration of roles). Fields that are not declared
  are ignored.
\<close>

datatype validation_error = ValidationError

fun validate_str :: "json \<Rightarrow> validation_error + pystr" where
  "validate_str (JStr s) = Inr s"
| "validate_str _ = Inl ValidationError"

fun validate_Message :: "json \<Rightarrow> validation_error + Message" where
  "validate_Message (JObj kvs) =
     (case map_of kvs (lit ''role'') of
        None \<Rightarrow> Inl ValidationError
      | Some r \<Rightarrow>
          (case validate_str r of
             Inl e \<Rightarrow> Inl e
           | Inr r' \<Rightarrow>
               (case map_of kvs (lit ''content'') of
                  None \<Rightarrow> Inl ValidationError
                | Some c \<Rightarrow>
                    (case validate_str c of
                       Inl e \<Rightarrow> Inl e
                     | Inr c' \<Rightarrow> Inr \<lparr>role = r', content = c'\<rparr>))))"
| "validate_Message _ = Inl ValidationError"

fun validate_Messages :: "json list \<Rightarrow> validation_error + Message list" where
  "validate_Messages [] = Inr []"
| "validate_Messages (j # js) =
     (case validate_Message j of
        Inl e \<Rightarrow> Inl e
      | Inr m \<Rightarrow>
          (case validate_Messages js of
             Inl e \<Rightarrow> Inl e
           | Inr ms \<Rightarrow> Inr (m # ms)))"

fun validate_history :: "json option \<Rightarrow> validation_error + Message list" where
  "validate_history None = Inr []"
| "validate_history (Some (JArr js)) = validate_Messages js"
| "validate_history (Some _) = Inl ValidationError"

fun validate_QueryRequest :: "json \<Rightarrow> validation_error + QueryRequest" where
  "validate_QueryRequest (JObj kvs) =
     (case map_of kvs (lit ''query'') of
        None \<Rightarrow> Inl ValidationError
      | Some q \<Rightarrow>
          (case validate_str q of
             Inl e \<Rightarrow> Inl e
           | Inr q' \<Rightarrow>
               (case validate_history (map_of kvs (lit ''history'')) of
                  Inl e \<Rightarrow> Inl e
                | Inr h \<Rightarrow> Inr \<lparr>query = q', history = h\<rparr>)))"
| "validate_QueryRequest _ = Inl ValidationError"

section \<open>Helper functions\<close>

text \<open>
  \<open>format_history\<close>: the loop appends one LangChain message per input message to
  \<open>formatted_history\<close>, which starts empty.
\<close>

fun format_history_loop :: "Message list \<Rightarrow> lc_message list \<Rightarrow> lc_message list" where
  "format_history_loop [] formatted_history = formatted_history"
| "format_history_loop (msg # msgs) formatted_history =
     (if role msg = lit ''user''
      then format_history_loop msgs (formatted_history @ [HumanMessage (content msg)])
      else format_history_loop msgs (formatted_history @ [AIMessage (content msg)]))"

definition format_history :: "Message list \<Rightarrow> lc_message list" where
  "format_history messages = format_history_loop messages []"

text \<open>Python's \<open>sep.join(xs)\<close> on a list of strings.\<close>

fun join :: "pystr \<Rightarrow> pystr list \<Rightarrow> pystr" where
  "join sep [] = []"
| "join sep [x] = x"
| "join sep (x # y # ys) = x @ sep @ join sep (y # ys)"

text \<open>The subscript \<open>d[k]\<close> on a dictionary: \<open>KeyError(k)\<close> when the key is missing.\<close>

definition getitem :: "SearchResult \<Rightarrow> pystr \<Rightarrow> exn + pystr" where
  "getitem d k = (case d k of None \<Rightarrow> Inl (KeyError k) | Some v \<Rightarrow> Inr v)"

text \<open>
  The comprehension \<open>[r["content"] for r in raw_results]\<close>: it stops at the first
  result whose subscript raises.
\<close>

fun contents_of :: "SearchResult list \<Rightarrow> exn + pystr list" where
  "contents_of [] = Inr []"
| "contents_of (r # rs) =
     (case getitem r (lit ''content'') of
        Inl e \<Rightarrow> Inl e
      | Inr c \<Rightarrow>
          (case contents_of rs of
             Inl e \<Rightarrow> Inl e
           | Inr cs \<Rightarrow> Inr (c # cs)))"

text \<open>
  The dictionary display \<open>{"title": res["content"][:40] + "...", "url": res["url"]}\<close>;
  the title is evaluated before the url. The slice \<open>[:40]\<close> is \<open>take 40\<close>.
\<close>

definition source_of :: "SearchResult \<Rightarrow> exn + json" where
  "source_of res =
     (case getitem res (lit ''content'') of
        Inl e \<Rightarrow> Inl e
      | Inr c \<Rightarrow>
          (case getitem res (lit ''url'') of
             Inl e \<Rightarrow> Inl e
           | Inr u \<Rightarrow>
               Inr (JObj [(lit ''title'', JStr (take 40 c @ lit ''...'')),
                          (lit ''url'', JStr u)])))"

text \<open>The comprehension \<open>[{...} for res in raw_results]\<close>.\<close>

fun sources_of :: "SearchResult list \<Rightarrow> exn + json list" where
  "sources_of [] = Inr []"
| "sources_of (res # rs) =
     (case source_of res of
        Inl e \<Rightarrow> Inl e
      | Inr s \<Rightarrow>
          (case sources_of rs of
             Inl e \<Rightarrow> Inl e
           | Inr ss \<Rightarrow> Inr (s # ss)))"

section \<open>The endpoint \<open>POST /chat\<close>\<close>

text \<open>
  The body of the \<open>try\<close> block of \<open>chat_endpoint\<close>: either the exception that left
  it or the dictionary it returns, together with the events so far.
\<close>

definition chat_endpoint_try ::
  "search_provider \<Rightarrow> chain_provider \<Rightarrow> QueryRequest \<Rightarrow> (exn + json) \<times> event list" where
  "chat_endpoint_try search_tool chain request =
     (let log1 = [SearchInvoke max_results (query request)] in
      case search_tool max_results (query request) of
        Inl e \<Rightarrow> (Inl e, log1)
      | Inr raw_results \<Rightarrow>
          (case contents_of raw_results of
             Inl e \<Rightarrow> (Inl e, log1)
           | Inr cs \<Rightarrow>
               (let context_text = join (lit ''\<newline>\<newline>'') cs;
                    chat_history = format_history (history request);
                    inp = \<lparr>inp_context = context_text, inp_question = query request,
                           inp_chat_history = chat_history\<rparr>;
                    log2 = log1 @ [ChainInvoke inp]
                in case chain inp of
                     Inl e \<Rightarrow> (Inl e, log2)
                   | Inr response \<Rightarrow>
                       (case sources_of raw_results of
                          Inl e \<Rightarrow> (Inl e, log2)
                        | Inr sources \<Rightarrow>
                            (Inr (JObj [(lit ''answer'', JStr response),
                                        (lit ''sources'', JArr sources)]), log2)))))"

text \<open>
  \<open>chat_endpoint\<close>: the \<open>except Exception\<close> clause prints the error and raises
  \<open>HTTPException(status_code=500, detail=str(e))\<close>.
\<close>

definition chat_endpoint ::
  "search_provider \<Rightarrow> chain_provider \<Rightarrow> QueryRequest \<Rightarrow> (http_exception + json) \<times> event list" where
  "chat_endpoint search_tool chain request =
     (case chat_endpoint_try search_tool chain request of
        (Inl e, log) \<Rightarrow>
          (Inl (HTTPException 500 (str_exn e)), log @ [Print (lit ''Error: '' @ str_exn e)])
      | (Inr r, log) \<Rightarrow> (Inr r, log))"

text \<open>
  The HTTP response FastAPI sends for the outcome of a handler: status 200 with the
  returned dictionary as body, or the status of the \<open>HTTPException\<close> with the body
  \<open>{"detail": detail}\<close>.
\<close>

record http_response =
  status :: nat
  body :: json

fun respond :: "http_exception + json \<Rightarrow> http_response" where
  "respond (Inr r) = \<lparr>status = 200, body = r\<rparr>"
| "respond (Inl (HTTPException code detail)) =
     \<lparr>status = code, body = JObj [(lit ''detail'', JStr detail)]\<rparr>"

text \<open>The field of a JSON object, if the value is an object that has it.\<close>

fun field :: "json \<Rightarrow> pystr \<Rightarrow> json option" where
  "field (JObj kvs) k = map_of kvs k"
| "field _ k = None"

section \<open>Stub providers and sample data\<close>

text \<open>
  Concrete providers, results and a request, used to run the endpoint on explicit inputs.
  \<open>stub_search\<close> honours the cap it is called with, \<open>stub_search_uncapped\<close> ignores
  it; \<open>stub_chain_echo\<close> answers with the context it is given; the failing stubs raise.
\<close>

definition stub_result_short :: SearchResult where
  "stub_result_short = [lit ''content'' \<mapsto> lit ''short text'', lit ''url'' \<mapsto> lit ''http://a'']"

definition stub_result_long :: SearchResult where
  "stub_result_long =
     [lit ''content'' \<mapsto> lit ''0123456789012345678901234567890123456789 and more'',
      lit ''url'' \<mapsto> lit ''http://b'']"

definition stub_result_no_url :: SearchResult where
  "stub_result_no_url = [lit ''content'' \<mapsto> lit ''no link'']"

definition stub_result_no_content :: SearchResult where
  "stub_result_no_content = [lit ''url'' \<mapsto> lit ''http://c'']"

definition stub_search :: "SearchResult list \<Rightarrow> search_provider" where
  "stub_search results n q = Inr (take n results)"

definition stub_search_failing :: search_provider where
  "stub_search_failing n q = Inl (OtherException (lit ''quota exceeded''))"

definition stub_chain :: chain_provider where
  "stub_chain inp = Inr (lit ''an answer'')"

definition stub_chain_failing :: chain_provider where
  "stub_chain_failing inp = Inl (OtherException (lit ''timeout''))"

definition stub_request :: QueryRequest where
  "stub_request = \<lparr>query = lit ''what?'', history = [\<lparr>role = lit ''user'', content = lit ''hi''\<rparr>]\<rparr>"

definition stub_results_two :: "SearchResult list" where
  "stub_results_two = [stub_result_short, stub_result_long]"

definition stub_results_four :: "SearchResult list" where
  "stub_results_four = [stub_result_short, stub_result_long, stub_result_long, stub_result_short]"

definition stub_chain_echo :: chain_provider where
  "stub_chain_echo inp = Inr (inp_context inp)"

definition stub_search_uncapped :: "SearchResult list \<Rightarrow> search_provider" where
  "stub_search_uncapped results n q = Inr results"

section \<open>Unfolding the stubs and the endpoint\<close>

lemmas stub_defs =
  stub_result_short_def stub_result_long_def stub_result_no_url_def stub_result_no_content_def
  stub_search_def stub_search_failing_def stub_chain_def stub_chain_failing_def
  stub_chain_echo_def stub_search_uncapped_def stub_request_def stub_results_two_def stub_results_four_def

lemmas run_defs = chat_endpoint_def chat_endpoint_try_def max_results_def getitem_def
  source_of_def format_history_def

section \<open>The history adapter\<close>

lemma format_history_loop_map:
  "format_history_loop msgs acc =
     acc @ map (\<lambda>m. if role m = lit ''user'' then HumanMessage (content m) else AIMessage (content m)) msgs"
  by (induction msgs arbitrary: acc) simp_all

lemma format_history_map:
  "format_history msgs =
     map (\<lambda>m. if role m = lit ''user'' then HumanMessage (content m) else AIMessage (content m)) msgs"
  by (simp add: format_history_def format_history_loop_map)

text \<open>
  Claim C2. For every list of messages, \<open>format_history\<close> gives a list of the same length
  in the same order: position \<open>i\<close> holds a human message with the content of input \<open>i\<close>
  exactly when the role of input \<open>i\<close> is the string \<open>user\<close>, and an AI message with that
  content for every other role. The function takes and returns values only.
\<close>

theorem format_history_spec:
  "length (format_history messages) = length messages \<and>
   (\<forall>i < length messages.
      (format_history messages ! i = HumanMessage (content (messages ! i))
         \<longleftrightarrow> role (messages ! i) = lit ''user'') \<and>
      (role (messages ! i) \<noteq> lit ''user''
         \<longrightarrow> format_history messages ! i = AIMessage (content (messages ! i))))"
proof (intro conjI allI impI)
  show "length (format_history messages) = length messages"
    by (simp add: format_history_map)
next
  fix i
  assume i: "i < length messages"
  then have nth: "format_history messages ! i =
      (if role (messages ! i) = lit ''user'' then HumanMessage (content (messages ! i))
       else AIMessage (content (messages ! i)))"
    by (simp add: format_history_map)
  show "format_history messages ! i = HumanMessage (content (messages ! i))
          \<longleftrightarrow> role (messages ! i) = lit ''user''"
    by (simp add: nth)
  assume "role (messages ! i) \<noteq> lit ''user''"
  with nth show "format_history messages ! i = AIMessage (content (messages ! i))"
    by simp
qed

text \<open>The theorem at a history with a user turn, an assistant turn and a misspelt role.\<close>

theorem format_history_spec_witness:
  "length (format_history
      [\<lparr>role = lit ''user'', content = lit ''hi''\<rparr>,
       \<lparr>role = lit ''assistant'', content = lit ''hello''\<rparr>,
       \<lparr>role = lit ''User'', content = lit ''typo''\<rparr>]) = 3 \<and>
   format_history
      [\<lparr>role = lit ''user'', content = lit ''hi''\<rparr>,
       \<lparr>role = lit ''assistant'', content = lit ''hello''\<rparr>,
       \<lparr>role = lit ''User'', content = lit ''typo''\<rparr>] ! 0 = HumanMessage (lit ''hi'') \<and>
   format_history
      [\<lparr>role = lit ''user'', content = lit ''hi''\<rparr>,
       \<lparr>role = lit ''assistant'', content = lit ''hello''\<rparr>,
       \<lparr>role = lit ''User'', content = lit ''typo''\<rparr>] ! 2 = AIMessage (lit ''typo'')"
proof -
  let ?ms = "[\<lparr>role = lit ''user'', content = lit ''hi''\<rparr>,
              \<lparr>role = lit ''assistant'', content = lit ''hello''\<rparr>,
              \<lparr>role = lit ''User'', content = lit ''typo''\<rparr>]"
  note h = format_history_spec [of ?ms]
  show ?thesis
    using h [THEN conjunct1] h [THEN conjunct2, rule_format, of 0]
      h [THEN conjunct2, rule_format, of 2]
    by (simp add: lit_def)
qed

section \<open>The two comprehensions over the raw results\<close>

lemma contents_of_Inr:
  "contents_of rs = Inr cs \<longleftrightarrow> map (\<lambda>r. r (lit ''content'')) rs = map Some cs"
proof (induction rs arbitrary: cs)
  case Nil
  then show ?case by auto
next
  case (Cons r rs)
  show ?case
  proof (cases "r (lit ''content'')")
    case None
    then show ?thesis by (auto simp: getitem_def)
  next
    case (Some c)
    then show ?thesis
      using Cons.IH by (cases cs; cases "contents_of rs") (auto simp: getitem_def)
  qed
qed

lemma sources_of_Inr_length:
  "sources_of rs = Inr ss \<Longrightarrow> length ss = length rs"
  by (induction rs arbitrary: ss) (auto split: sum.splits)

lemma source_of_Inr:
  "source_of res = Inr s \<Longrightarrow>
     \<exists>c u. res (lit ''content'') = Some c \<and> res (lit ''url'') = Some u \<and>
       s = JObj [(lit ''title'', JStr (take 40 c @ lit ''...'')), (lit ''url'', JStr u)]"
  by (auto simp: source_of_def getitem_def split: option.splits)

lemma sources_of_Inr_nth:
  "sources_of rs = Inr ss \<Longrightarrow> i < length rs \<Longrightarrow> source_of (rs ! i) = Inr (ss ! i)"
proof (induction rs arbitrary: ss i)
  case Nil
  then show ?case by simp
next
  case (Cons r rs)
  then show ?case
    by (cases i) (auto split: sum.splits)
qed

lemma sources_of_present:
  "map (\<lambda>r. r (lit ''content'')) rs = map Some cs \<Longrightarrow>
   map (\<lambda>r. r (lit ''url'')) rs = map Some us \<Longrightarrow>
     \<exists>ss. sources_of rs = Inr ss"
proof (induction rs arbitrary: cs us)
  case Nil
  then show ?case by simp
next
  case (Cons r rs)
  from Cons.prems(1) obtain c cs' where cs: "cs = c # cs'" by (cases cs) auto
  from Cons.prems(2) obtain u us' where us: "us = u # us'" by (cases us) auto
  from Cons.prems cs us have r: "r (lit ''content'') = Some c" "r (lit ''url'') = Some u"
    and tl: "map (\<lambda>r. r (lit ''content'')) rs = map Some cs'"
            "map (\<lambda>r. r (lit ''url'')) rs = map Some us'"
    by simp_all
  from Cons.IH [OF tl] obtain ss where "sources_of rs = Inr ss" by blast
  with r show ?case by (simp add: source_of_def getitem_def)
qed

section \<open>The endpoint, case by case\<close>

lemma try_search_error:
  assumes "search_tool max_results (query request) = Inl e"
  shows "chat_endpoint_try search_tool chain request =
           (Inl e, [SearchInvoke max_results (query request)])"
  using assms by (simp add: chat_endpoint_try_def)

lemma try_content_error:
  assumes "search_tool max_results (query request) = Inr raw_results"
      and "contents_of raw_results = Inl e"
  shows "chat_endpoint_try search_tool chain request =
           (Inl e, [SearchInvoke max_results (query request)])"
  using assms by (simp add: chat_endpoint_try_def)

lemma try_chain_error:
  assumes "search_tool max_results (query request) = Inr raw_results"
      and "contents_of raw_results = Inr cs"
      and "chain \<lparr>inp_context = join (lit ''\<newline>\<newline>'') cs, inp_question = query request,
                   inp_chat_history = format_history (history request)\<rparr> = Inl e"
  shows "chat_endpoint_try search_tool chain request =
           (Inl e, [SearchInvoke max_results (query request),
                    ChainInvoke \<lparr>inp_context = join (lit ''\<newline>\<newline>'') cs,
                                 inp_question = query request,
                                 inp_chat_history = format_history (history request)\<rparr>])"
  using assms by (simp add: chat_endpoint_try_def)

lemma try_sources_error:
  assumes "search_tool max_results (query request) = Inr raw_results"
      and "contents_of raw_results = Inr cs"
      and "chain \<lparr>inp_context = join (lit ''\<newline>\<newline>'') cs, inp_question = query request,
                   inp_chat_history = format_history (history request)\<rparr> = Inr response"
      and "sources_of raw_results = Inl e"
  shows "chat_endpoint_try search_tool chain request =
           (Inl e, [SearchInvoke max_results (query request),
                    ChainInvoke \<lparr>inp_context = join (lit ''\<newline>\<newline>'') cs,
                                 inp_question = query request,
                                 inp_chat_history = format_history (history request)\<rparr>])"
  using assms by (simp add: chat_endpoint_try_def)

lemma try_success:
  assumes "search_tool max_results (query request) = Inr raw_results"
      and "contents_of raw_results = Inr cs"
      and "chain \<lparr>inp_context = join (lit ''\<newline>\<newline>'') cs, inp_question = query request,
                   inp_chat_history = format_history (history request)\<rparr> = Inr response"
      and "sources_of raw_results = Inr sources"
  shows "chat_endpoint_try search_tool chain request =
           (Inr (JObj [(lit ''answer'', JStr response), (lit ''sources'', JArr sources)]),
            [SearchInvoke max_results (query request),
             ChainInvoke \<lparr>inp_context = join (lit ''\<newline>\<newline>'') cs,
                          inp_question = query request,
                          inp_chat_history = format_history (history request)\<rparr>])"
  using assms by (simp add: chat_endpoint_try_def)

lemma endpoint_Inl:
  "fst (chat_endpoint_try search_tool chain request) = Inl e \<Longrightarrow>
     chat_endpoint search_tool chain request =
       (Inl (HTTPException 500 (str_exn e)),
        snd (chat_endpoint_try search_tool chain request) @ [Print (lit ''Error: '' @ str_exn e)])"
  by (cases "chat_endpoint_try search_tool chain request") (simp add: chat_endpoint_def)

lemma endpoint_Inr:
  "fst (chat_endpoint_try search_tool chain request) = Inr r \<Longrightarrow>
     chat_endpoint search_tool chain request =
       (Inr r, snd (chat_endpoint_try search_tool chain request))"
  by (cases "chat_endpoint_try search_tool chain request") (simp add: chat_endpoint_def)

lemma endpoint_success_cases:
  assumes "fst (chat_endpoint search_tool chain request) = Inr r"
  obtains raw_results cs response sources where
    "search_tool max_results (query request) = Inr raw_results"
    "contents_of raw_results = Inr cs"
    "chain \<lparr>inp_context = join (lit ''\<newline>\<newline>'') cs, inp_question = query request,
            inp_chat_history = format_history (history request)\<rparr> = Inr response"
    "sources_of raw_results = Inr sources"
    "r = JObj [(lit ''answer'', JStr response), (lit ''sources'', JArr sources)]"
  using assms
  by (auto simp: chat_endpoint_def chat_endpoint_try_def Let_def split: sum.splits prod.splits)

lemma endpoint_status_200:
  assumes "status (respond (fst (chat_endpoint search_tool chain request))) = 200"
  shows "\<exists>r. fst (chat_endpoint search_tool chain request) = Inr r"
proof (cases "fst (chat_endpoint_try search_tool chain request)")
  case (Inl e)
  from endpoint_Inl [OF Inl] assms show ?thesis by simp
next
  case (Inr r)
  from endpoint_Inr [OF Inr] show ?thesis by simp
qed

text \<open>
  Claim C1. When the search provider returns \<open>raw_results\<close> and the request succeeds
  (status 200), the \<open>sources\<close> field of the response is a list with exactly as many
  entries as \<open>raw_results\<close>, in the same order: entry \<open>i\<close> has as title the first 40
  characters of the content of result \<open>i\<close> followed by \<open>...\<close>, and as url the url of
  result \<open>i\<close>. Nothing is filtered or deduplicated. This holds for every number of
  results, in particular for 0 to 3.
\<close>

theorem sources_match_results:
  assumes "search_tool max_results (query request) = Inr raw_results"
      and "status (respond (fst (chat_endpoint search_tool chain request))) = 200"
  shows "\<exists>ss. field (body (respond (fst (chat_endpoint search_tool chain request))))
                 (lit ''sources'') = Some (JArr ss) \<and>
              length ss = length raw_results \<and>
              (\<forall>i < length raw_results.
                 \<exists>c u. (raw_results ! i) (lit ''content'') = Some c \<and>
                       (raw_results ! i) (lit ''url'') = Some u \<and>
                       ss ! i = JObj [(lit ''title'', JStr (take 40 c @ lit ''...'')),
                                      (lit ''url'', JStr u)])"
proof -
  from endpoint_status_200 [OF assms(2)]
  obtain r where r: "fst (chat_endpoint search_tool chain request) = Inr r" by blast
  from r obtain rs cs response sources where
    rs: "search_tool max_results (query request) = Inr rs" and
    "contents_of rs = Inr cs" and
    src: "sources_of rs = Inr sources" and
    r_eq: "r = JObj [(lit ''answer'', JStr response), (lit ''sources'', JArr sources)]"
    by (rule endpoint_success_cases)
  from rs assms(1) have [simp]: "rs = raw_results" by simp
  have f: "field (body (respond (fst (chat_endpoint search_tool chain request))))
             (lit ''sources'') = Some (JArr sources)"
    by (simp add: r r_eq lit_def)
  have len: "length sources = length raw_results"
    using src by (simp add: sources_of_Inr_length)
  have nth: "\<exists>c u. (raw_results ! i) (lit ''content'') = Some c \<and>
                   (raw_results ! i) (lit ''url'') = Some u \<and>
                   sources ! i = JObj [(lit ''title'', JStr (take 40 c @ lit ''...'')),
                                       (lit ''url'', JStr u)]"
    if "i < length raw_results" for i
    using sources_of_Inr_nth [of raw_results sources i] src that
    by (auto dest: source_of_Inr)
  from f len nth show ?thesis by blast
qed

text \<open>
  The theorem on the stub search provider that returns two results.
\<close>

theorem sources_match_results_witness:
  "stub_search stub_results_two max_results (query stub_request) = Inr stub_results_two \<and>
   status (respond (fst (chat_endpoint (stub_search stub_results_two) stub_chain stub_request))) = 200 \<and>
   (\<exists>ss. field (body (respond (fst (chat_endpoint (stub_search stub_results_two) stub_chain
                                       stub_request))))
             (lit ''sources'') = Some (JArr ss) \<and>
         length ss = length stub_results_two \<and>
         (\<forall>i < length stub_results_two.
            \<exists>c u. (stub_results_two ! i) (lit ''content'') = Some c \<and>
                  (stub_results_two ! i) (lit ''url'') = Some u \<and>
                  ss ! i = JObj [(lit ''title'', JStr (take 40 c @ lit ''...'')),
                                 (lit ''url'', JStr u)]))"
proof -
  have h1: "stub_search stub_results_two max_results (query stub_request) = Inr stub_results_two"
    by (simp add: stub_search_def stub_results_two_def max_results_def)
  have h2: "status (respond (fst (chat_endpoint (stub_search stub_results_two) stub_chain
                                    stub_request))) = 200"
    by (simp add: run_defs stub_defs lit_def)
  show ?thesis
    by (rule conjI [OF h1 conjI [OF h2 sources_match_results
          [where search_tool = "stub_search stub_results_two" and chain = stub_chain
             and request = stub_request, OF h1 h2]]])
qed

section \<open>The events of a request\<close>

lemma endpoint_log:
  "snd (chat_endpoint search_tool chain request) =
     snd (chat_endpoint_try search_tool chain request) @
       (case fst (chat_endpoint_try search_tool chain request) of
          Inl e \<Rightarrow> [Print (lit ''Error: '' @ str_exn e)]
        | Inr r \<Rightarrow> [])"
  by (cases "chat_endpoint_try search_tool chain request")
     (simp add: chat_endpoint_def split: sum.splits)

lemma try_log_chain:
  assumes "search_tool max_results (query request) = Inr raw_results"
      and "contents_of raw_results = Inr cs"
  shows "snd (chat_endpoint_try search_tool chain request) =
           [SearchInvoke max_results (query request),
            ChainInvoke \<lparr>inp_context = join (lit ''\<newline>\<newline>'') cs,
                         inp_question = query request,
                         inp_chat_history = format_history (history request)\<rparr>]"
  using assms by (simp add: chat_endpoint_try_def Let_def split: sum.splits)

lemma chain_invoked_iff:
  "ChainInvoke inp \<in> set (snd (chat_endpoint search_tool chain request)) \<longleftrightarrow>
     (\<exists>raw_results cs.
        search_tool max_results (query request) = Inr raw_results \<and>
        contents_of raw_results = Inr cs \<and>
        inp = \<lparr>inp_context = join (lit ''\<newline>\<newline>'') cs, inp_question = query request,
               inp_chat_history = format_history (history request)\<rparr>)"
proof (cases "search_tool max_results (query request)")
  case (Inl e)
  then show ?thesis
    by (simp add: endpoint_log try_search_error split: sum.splits)
next
  case (Inr raw_results)
  show ?thesis
  proof (cases "contents_of raw_results")
    case (Inl e)
    with Inr show ?thesis
      by (simp add: endpoint_log try_content_error split: sum.splits)
  next
    case cs: (Inr cs)
    with Inr show ?thesis
      by (auto simp: endpoint_log try_log_chain split: sum.splits)
  qed
qed

text \<open>
  Claim C9. For a result with content \<open>c\<close> and a url, the derived source has the title
  \<open>c[:40] + "..."\<close>; the title never has more than 43 characters, and when \<open>c\<close> has
  fewer than 40 characters it is the whole of \<open>c\<close> followed by \<open>...\<close>.
\<close>

theorem source_title_truncated:
  assumes "res (lit ''content'') = Some c" and "res (lit ''url'') = Some u"
  shows "\<exists>t. source_of res = Inr (JObj [(lit ''title'', JStr t), (lit ''url'', JStr u)]) \<and>
             t = take 40 c @ lit ''...'' \<and>
             length t \<le> 43 \<and>
             (length c < 40 \<longrightarrow> t = c @ lit ''...'')"
  using assms by (simp add: source_of_def getitem_def lit_def)

text \<open>
  The theorem on a result whose content has ten characters.
\<close>

theorem source_title_truncated_witness:
  "stub_result_short (lit ''content'') = Some (lit ''short text'') \<and>
   stub_result_short (lit ''url'') = Some (lit ''http://a'') \<and>
   (\<exists>t. source_of stub_result_short =
           Inr (JObj [(lit ''title'', JStr t), (lit ''url'', JStr (lit ''http://a''))]) \<and>
        t = take 40 (lit ''short text'') @ lit ''...'' \<and>
        length t \<le> 43 \<and>
        (length (lit ''short text'') < 40 \<longrightarrow> t = lit ''short text'' @ lit ''...'')) \<and>
   length (lit ''short text'') < 40"
proof -
  have h1: "stub_result_short (lit ''content'') = Some (lit ''short text'')"
    by (simp add: stub_result_short_def lit_def)
  have h2: "stub_result_short (lit ''url'') = Some (lit ''http://a'')"
    by (simp add: stub_result_short_def lit_def)
  have h3: "length (lit ''short text'') < 40"
    by (simp add: lit_def)
  show ?thesis
    by (rule conjI [OF h1 conjI [OF h2 conjI [OF source_title_truncated [OF h1 h2] h3]]])
qed

text \<open>
  Claim C3. When the search provider returns \<open>raw_results\<close> whose contents are \<open>cs\<close>,
  the chain is invoked with the context \<open>cs\<close> joined by a blank line (two newlines), in
  provider order, and with no other context; and the response is what the chain gives on
  exactly that input: if the chain raises there, the 500 of that error, and if it answers
  there and every result has a url, status 200 with that answer. When the provider returns
  no result, that context is the empty string and the request is not an error: if the
  chain answers, the response is 200 with that answer and an empty source list.
\<close>

theorem context_block_joined:
  assumes "search_tool max_results (query request) = Inr raw_results"
      and "map (\<lambda>r. r (lit ''content'')) raw_results = map Some cs"
  shows "ChainInvoke \<lparr>inp_context = join (lit ''\<newline>\<newline>'') cs, inp_question = query request,
                      inp_chat_history = format_history (history request)\<rparr>
           \<in> set (snd (chat_endpoint search_tool chain request)) \<and>
         (\<forall>inp. ChainInvoke inp \<in> set (snd (chat_endpoint search_tool chain request))
            \<longrightarrow> inp_context inp = join (lit ''\<newline>\<newline>'') cs) \<and>
         (\<forall>e. chain \<lparr>inp_context = join (lit ''\<newline>\<newline>'') cs, inp_question = query request,
                      inp_chat_history = format_history (history request)\<rparr> = Inl e
            \<longrightarrow> respond (fst (chat_endpoint search_tool chain request)) =
                  \<lparr>status = 500, body = JObj [(lit ''detail'', JStr (str_exn e))]\<rparr>) \<and>
         (\<forall>a us. chain \<lparr>inp_context = join (lit ''\<newline>\<newline>'') cs, inp_question = query request,
                         inp_chat_history = format_history (history request)\<rparr> = Inr a \<and>
                 map (\<lambda>r. r (lit ''url'')) raw_results = map Some us
            \<longrightarrow> status (respond (fst (chat_endpoint search_tool chain request))) = 200 \<and>
                field (body (respond (fst (chat_endpoint search_tool chain request))))
                  (lit ''answer'') = Some (JStr a)) \<and>
         (raw_results = [] \<longrightarrow>
            join (lit ''\<newline>\<newline>'') cs = [] \<and>
            (\<forall>a. chain \<lparr>inp_context = [], inp_question = query request,
                         inp_chat_history = format_history (history request)\<rparr> = Inr a
               \<longrightarrow> respond (fst (chat_endpoint search_tool chain request)) =
                     \<lparr>status = 200,
                      body = JObj [(lit ''answer'', JStr a), (lit ''sources'', JArr [])]\<rparr>))"
proof -
  let ?inp = "\<lparr>inp_context = join (lit ''\<newline>\<newline>'') cs, inp_question = query request,
                inp_chat_history = format_history (history request)\<rparr>"
  from assms(2) have cs: "contents_of raw_results = Inr cs"
    by (simp add: contents_of_Inr)
  have a: "ChainInvoke ?inp \<in> set (snd (chat_endpoint search_tool chain request))"
    using assms(1) cs by (simp add: chain_invoked_iff)
  have b: "inp_context inp = join (lit ''\<newline>\<newline>'') cs"
    if "ChainInvoke inp \<in> set (snd (chat_endpoint search_tool chain request))" for inp
    using that assms(1) cs by (auto simp: chain_invoked_iff)
  have c: "respond (fst (chat_endpoint search_tool chain request)) =
             \<lparr>status = 500, body = JObj [(lit ''detail'', JStr (str_exn e))]\<rparr>"
    if "chain ?inp = Inl e" for e
  proof -
    from assms(1) cs that have "fst (chat_endpoint_try search_tool chain request) = Inl e"
      by (simp add: try_chain_error)
    then show ?thesis by (simp add: endpoint_Inl)
  qed
  have d: "status (respond (fst (chat_endpoint search_tool chain request))) = 200 \<and>
           field (body (respond (fst (chat_endpoint search_tool chain request))))
             (lit ''answer'') = Some (JStr a)"
    if "chain ?inp = Inr a \<and> map (\<lambda>r. r (lit ''url'')) raw_results = map Some us" for a us
  proof -
    from that assms(2) obtain ss where ss: "sources_of raw_results = Inr ss"
      using sources_of_present [of raw_results cs us] by blast
    from assms(1) cs that ss
    have "fst (chat_endpoint_try search_tool chain request) =
            Inr (JObj [(lit ''answer'', JStr a), (lit ''sources'', JArr ss)])"
      by (simp add: try_success)
    then show ?thesis by (simp add: endpoint_Inr)
  qed
  have e: "join (lit ''\<newline>\<newline>'') cs = [] \<and>
           (\<forall>a. chain \<lparr>inp_context = [], inp_question = query request,
                        inp_chat_history = format_history (history request)\<rparr> = Inr a
              \<longrightarrow> respond (fst (chat_endpoint search_tool chain request)) =
                    \<lparr>status = 200,
                     body = JObj [(lit ''answer'', JStr a), (lit ''sources'', JArr [])]\<rparr>)"
    if "raw_results = []"
  proof -
    from that assms(2) have [simp]: "cs = []" by simp
    show ?thesis
    proof (intro conjI allI impI)
      show "join (lit ''\<newline>\<newline>'') cs = []" by simp
    next
      fix a
      assume "chain \<lparr>inp_context = [], inp_question = query request,
                     inp_chat_history = format_history (history request)\<rparr> = Inr a"
      with assms(1) that
      have "chat_endpoint_try search_tool chain request =
              (Inr (JObj [(lit ''answer'', JStr a), (lit ''sources'', JArr [])]),
               [SearchInvoke max_results (query request),
                ChainInvoke \<lparr>inp_context = join (lit ''\<newline>\<newline>'') [],
                             inp_question = query request,
                             inp_chat_history = format_history (history request)\<rparr>])"
        by (intro try_success [where raw_results = "[]"]) simp_all
      then show "respond (fst (chat_endpoint search_tool chain request)) =
                   \<lparr>status = 200,
                    body = JObj [(lit ''answer'', JStr a), (lit ''sources'', JArr [])]\<rparr>"
        by (simp add: chat_endpoint_def)
    qed
  qed
  from a b c d e show ?thesis by blast
qed

text \<open>
  The theorem on the stub provider with two results, once with the chain that echoes its
  context (the answer is the joined contents) and once with the failing chain, and on the
  provider with no result.
\<close>

theorem context_block_joined_witness:
  "stub_search stub_results_two max_results (query stub_request) = Inr stub_results_two \<and>
   map (\<lambda>r. r (lit ''content'')) stub_results_two =
     map Some [lit ''short text'', lit ''0123456789012345678901234567890123456789 and more''] \<and>
   ChainInvoke
     \<lparr>inp_context = lit ''short text\<newline>\<newline>0123456789012345678901234567890123456789 and more'',
      inp_question = lit ''what?'',
      inp_chat_history = [HumanMessage (lit ''hi'')]\<rparr>
     \<in> set (snd (chat_endpoint (stub_search stub_results_two) stub_chain_echo stub_request)) \<and>
   status (respond (fst (chat_endpoint (stub_search stub_results_two) stub_chain_echo
                           stub_request))) = 200 \<and>
   field (body (respond (fst (chat_endpoint (stub_search stub_results_two) stub_chain_echo
                                stub_request))))
     (lit ''answer'') =
     Some (JStr (lit ''short text\<newline>\<newline>0123456789012345678901234567890123456789 and more'')) \<and>
   respond (fst (chat_endpoint (stub_search stub_results_two) stub_chain_failing stub_request)) =
     \<lparr>status = 500, body = JObj [(lit ''detail'', JStr (lit ''timeout''))]\<rparr> \<and>
   stub_search [] max_results (query stub_request) = Inr [] \<and>
   respond (fst (chat_endpoint (stub_search []) stub_chain_echo stub_request)) =
     \<lparr>status = 200, body = JObj [(lit ''answer'', JStr []), (lit ''sources'', JArr [])]\<rparr>"
proof -
  let ?cs = "[lit ''short text'', lit ''0123456789012345678901234567890123456789 and more'']"
  let ?us = "[lit ''http://a'', lit ''http://b'']"
  let ?inp = "\<lparr>inp_context = join (lit ''\<newline>\<newline>'') ?cs, inp_question = query stub_request,
                inp_chat_history = format_history (history stub_request)\<rparr>"
  have h1: "stub_search stub_results_two max_results (query stub_request) = Inr stub_results_two"
    by (simp add: stub_search_def stub_results_two_def max_results_def)
  have h2: "map (\<lambda>r. r (lit ''content'')) stub_results_two = map Some ?cs"
    by (simp add: stub_defs lit_def)
  have h3: "map (\<lambda>r. r (lit ''url'')) stub_results_two = map Some ?us"
    by (simp add: stub_defs lit_def)
  have h4: "stub_chain_echo ?inp = Inr (join (lit ''\<newline>\<newline>'') ?cs)"
    by (simp add: stub_chain_echo_def)
  have h5: "stub_chain_failing ?inp = Inl (OtherException (lit ''timeout''))"
    by (simp add: stub_chain_failing_def)
  have e1: "stub_search [] max_results (query stub_request) = Inr []"
    by (simp add: stub_search_def)
  have e2: "map (\<lambda>r. r (lit ''content'')) [] = map Some []"
    by simp
  have e3: "stub_chain_echo \<lparr>inp_context = [], inp_question = query stub_request,
                             inp_chat_history = format_history (history stub_request)\<rparr> =
              Inr []"
    by (simp add: stub_chain_echo_def)
  note echo = context_block_joined
      [where search_tool = "stub_search stub_results_two" and chain = stub_chain_echo
         and request = stub_request, OF h1 h2]
  note failing = context_block_joined
      [where search_tool = "stub_search stub_results_two" and chain = stub_chain_failing
         and request = stub_request, OF h1 h2]
  note zero = context_block_joined
      [where search_tool = "stub_search []" and chain = stub_chain_echo
         and request = stub_request, OF e1 e2]
  have a: "ChainInvoke
     \<lparr>inp_context = lit ''short text\<newline>\<newline>0123456789012345678901234567890123456789 and more'',
      inp_question = lit ''what?'',
      inp_chat_history = [HumanMessage (lit ''hi'')]\<rparr>
     \<in> set (snd (chat_endpoint (stub_search stub_results_two) stub_chain_echo stub_request))"
    using echo [THEN conjunct1]
    by (simp add: stub_request_def format_history_def lit_def)
  note ok = echo [THEN conjunct2, THEN conjunct2, THEN conjunct2, THEN conjunct1, rule_format,
      OF conjI [OF h4 h3]]
  have b1: "status (respond (fst (chat_endpoint (stub_search stub_results_two) stub_chain_echo
                           stub_request))) = 200"
    using ok [THEN conjunct1] .
  have b2: "field (body (respond (fst (chat_endpoint (stub_search stub_results_two)
                                        stub_chain_echo stub_request))))
     (lit ''answer'') =
     Some (JStr (lit ''short text\<newline>\<newline>0123456789012345678901234567890123456789 and more''))"
    using ok [THEN conjunct2] by (simp add: lit_def)
  have c: "respond (fst (chat_endpoint (stub_search stub_results_two) stub_chain_failing
                           stub_request)) =
     \<lparr>status = 500, body = JObj [(lit ''detail'', JStr (lit ''timeout''))]\<rparr>"
    using failing [THEN conjunct2, THEN conjunct2, THEN conjunct1, rule_format, OF h5]
    by simp
  have d: "respond (fst (chat_endpoint (stub_search []) stub_chain_echo stub_request)) =
     \<lparr>status = 200, body = JObj [(lit ''answer'', JStr []), (lit ''sources'', JArr [])]\<rparr>"
    using zero [THEN conjunct2, THEN conjunct2, THEN conjunct2, THEN conjunct2, THEN mp, OF refl,
        THEN conjunct2, rule_format, OF e3] .
  show ?thesis
    by (rule conjI [OF h1 conjI [OF h2 conjI [OF a conjI [OF b1 conjI [OF b2
          conjI [OF c conjI [OF e1 d]]]]]]])
qed

section \<open>Provider failures\<close>

text \<open>
  Claim C4. When the search provider raises \<open>e\<close>, the response has status 500 and the
  body \<open>{"detail": str(e)}\<close>, and the chain (hence the model provider) is not invoked.
\<close>

theorem search_error_gives_500:
  assumes "search_tool max_results (query request) = Inl e"
  shows "respond (fst (chat_endpoint search_tool chain request)) =
           \<lparr>status = 500, body = JObj [(lit ''detail'', JStr (str_exn e))]\<rparr> \<and>
         (\<forall>inp. ChainInvoke inp \<notin> set (snd (chat_endpoint search_tool chain request)))"
  using assms by (simp add: chain_invoked_iff try_search_error chat_endpoint_def)

text \<open>
  The theorem on the failing stub search provider.
\<close>

theorem search_error_gives_500_witness:
  "stub_search_failing max_results (query stub_request) = Inl (OtherException (lit ''quota exceeded'')) \<and>
   respond (fst (chat_endpoint stub_search_failing stub_chain stub_request)) =
     \<lparr>status = 500, body = JObj [(lit ''detail'', JStr (lit ''quota exceeded''))]\<rparr> \<and>
   (\<forall>inp. ChainInvoke inp \<notin> set (snd (chat_endpoint stub_search_failing stub_chain stub_request)))"
proof -
  have h: "stub_search_failing max_results (query stub_request) =
             Inl (OtherException (lit ''quota exceeded''))"
    by (simp add: stub_search_failing_def)
  note c = search_error_gives_500
      [where search_tool = stub_search_failing and chain = stub_chain
         and request = stub_request, OF h, unfolded str_exn.simps]
  show ?thesis
    by (rule conjI [OF h c])
qed

text \<open>
  Claim C5. When the chain is invoked and raises \<open>e\<close>, the response has status 500 and
  the body \<open>{"detail": str(e)}\<close>, which has no \<open>answer\<close> field.
\<close>

theorem chain_error_gives_500:
  assumes "ChainInvoke inp \<in> set (snd (chat_endpoint search_tool chain request))"
      and "chain inp = Inl e"
  shows "respond (fst (chat_endpoint search_tool chain request)) =
           \<lparr>status = 500, body = JObj [(lit ''detail'', JStr (str_exn e))]\<rparr> \<and>
         field (body (respond (fst (chat_endpoint search_tool chain request))))
           (lit ''answer'') = None"
proof -
  from assms(1) obtain raw_results cs where
    "search_tool max_results (query request) = Inr raw_results"
    "contents_of raw_results = Inr cs"
    "inp = \<lparr>inp_context = join (lit ''\<newline>\<newline>'') cs, inp_question = query request,
            inp_chat_history = format_history (history request)\<rparr>"
    by (auto simp: chain_invoked_iff)
  with assms(2) have "fst (chat_endpoint_try search_tool chain request) = Inl e"
    by (simp add: try_chain_error)
  then show ?thesis
    by (simp add: endpoint_Inl lit_def)
qed

text \<open>
  The theorem on the failing stub chain.
\<close>

theorem chain_error_gives_500_witness:
  "ChainInvoke \<lparr>inp_context = lit ''short text'', inp_question = lit ''what?'',
                inp_chat_history = [HumanMessage (lit ''hi'')]\<rparr>
     \<in> set (snd (chat_endpoint (stub_search [stub_result_short]) stub_chain_failing stub_request)) \<and>
   stub_chain_failing \<lparr>inp_context = lit ''short text'', inp_question = lit ''what?'',
                       inp_chat_history = [HumanMessage (lit ''hi'')]\<rparr> =
     Inl (OtherException (lit ''timeout'')) \<and>
   respond (fst (chat_endpoint (stub_search [stub_result_short]) stub_chain_failing stub_request)) =
     \<lparr>status = 500, body = JObj [(lit ''detail'', JStr (lit ''timeout''))]\<rparr> \<and>
   field (body (respond (fst (chat_endpoint (stub_search [stub_result_short]) stub_chain_failing
                                stub_request))))
     (lit ''answer'') = None"
proof -
  let ?inp = "\<lparr>inp_context = lit ''short text'', inp_question = lit ''what?'',
                inp_chat_history = [HumanMessage (lit ''hi'')]\<rparr>"
  have h1: "ChainInvoke ?inp
     \<in> set (snd (chat_endpoint (stub_search [stub_result_short]) stub_chain_failing stub_request))"
    by (simp add: run_defs stub_defs lit_def)
  have h2: "stub_chain_failing ?inp = Inl (OtherException (lit ''timeout''))"
    by (simp add: stub_chain_failing_def)
  note c = chain_error_gives_500
      [where search_tool = "stub_search [stub_result_short]" and chain = stub_chain_failing
         and request = stub_request, OF h1 h2, unfolded str_exn.simps]
  show ?thesis
    by (rule conjI [OF h1 conjI [OF h2 c]])
qed

section \<open>Missing keys\<close>

lemma contents_of_missing:
  "res \<in> set rs \<Longrightarrow> res (lit ''content'') = None \<Longrightarrow>
     contents_of rs = Inl (KeyError (lit ''content''))"
proof (induction rs)
  case Nil
  then show ?case by simp
next
  case (Cons r rs)
  show ?case
  proof (cases "r (lit ''content'')")
    case None
    then show ?thesis by (simp add: getitem_def)
  next
    case (Some c)
    with Cons.prems have "res \<in> set rs" by auto
    with Cons.IH Cons.prems(2) Some show ?thesis by (simp add: getitem_def)
  qed
qed

lemma sources_of_missing_url:
  "\<forall>r \<in> set rs. r (lit ''content'') \<noteq> None \<Longrightarrow> res \<in> set rs \<Longrightarrow>
     res (lit ''url'') = None \<Longrightarrow> sources_of rs = Inl (KeyError (lit ''url''))"
proof (induction rs)
  case Nil
  then show ?case by simp
next
  case (Cons r rs)
  from Cons.prems(1) obtain c where c: "r (lit ''content'') = Some c" by auto
  show ?case
  proof (cases "r (lit ''url'')")
    case None
    with c show ?thesis by (simp add: source_of_def getitem_def)
  next
    case (Some u)
    with Cons.prems have "res \<in> set rs" by auto
    with Cons.IH Cons.prems have "sources_of rs = Inl (KeyError (lit ''url''))" by simp
    with c Some show ?thesis by (simp add: source_of_def getitem_def)
  qed
qed

lemma contents_all_present:
  "map (\<lambda>r. r (lit ''content'')) rs = map Some cs \<Longrightarrow> \<forall>r \<in> set rs. r (lit ''content'') \<noteq> None"
proof (induction rs arbitrary: cs)
  case Nil
  then show ?case by simp
next
  case (Cons r rs)
  then show ?case by (cases cs) auto
qed

text \<open>
  Claim C10. Every exception that leaves the body of the \<open>try\<close> block gives status 500
  with the detail \<open>str(e)\<close>. In particular a result without the key \<open>content\<close> gives
  the 500 of \<open>KeyError('content')\<close>; and when every result has a content, one has no
  \<open>url\<close> and the chain answers, the chain has been invoked and the response is still the
  500 of \<open>KeyError('url')\<close>.
\<close>

theorem every_exception_gives_500:
  "(\<forall>e. fst (chat_endpoint_try search_tool chain request) = Inl e \<longrightarrow>
        respond (fst (chat_endpoint search_tool chain request)) =
          \<lparr>status = 500, body = JObj [(lit ''detail'', JStr (str_exn e))]\<rparr>) \<and>
   (\<forall>raw_results res.
        search_tool max_results (query request) = Inr raw_results \<and>
        res \<in> set raw_results \<and> res (lit ''content'') = None \<longrightarrow>
        respond (fst (chat_endpoint search_tool chain request)) =
          \<lparr>status = 500,
           body = JObj [(lit ''detail'', JStr (str_exn (KeyError (lit ''content''))))]\<rparr>) \<and>
   (\<forall>raw_results cs res a.
        search_tool max_results (query request) = Inr raw_results \<and>
        map (\<lambda>r. r (lit ''content'')) raw_results = map Some cs \<and>
        res \<in> set raw_results \<and> res (lit ''url'') = None \<and>
        chain \<lparr>inp_context = join (lit ''\<newline>\<newline>'') cs, inp_question = query request,
               inp_chat_history = format_history (history request)\<rparr> = Inr a \<longrightarrow>
        ChainInvoke \<lparr>inp_context = join (lit ''\<newline>\<newline>'') cs, inp_question = query request,
                     inp_chat_history = format_history (history request)\<rparr>
          \<in> set (snd (chat_endpoint search_tool chain request)) \<and>
        respond (fst (chat_endpoint search_tool chain request)) =
          \<lparr>status = 500,
           body = JObj [(lit ''detail'', JStr (str_exn (KeyError (lit ''url''))))]\<rparr>)"
proof (intro conjI allI impI)
  fix e
  assume "fst (chat_endpoint_try search_tool chain request) = Inl e"
  then show "respond (fst (chat_endpoint search_tool chain request)) =
               \<lparr>status = 500, body = JObj [(lit ''detail'', JStr (str_exn e))]\<rparr>"
    by (simp add: endpoint_Inl)
next
  fix raw_results res
  assume h: "search_tool max_results (query request) = Inr raw_results \<and>
             res \<in> set raw_results \<and> res (lit ''content'') = None"
  then have "contents_of raw_results = Inl (KeyError (lit ''content''))"
    using contents_of_missing [of res raw_results] by simp
  with h have "fst (chat_endpoint_try search_tool chain request) = Inl (KeyError (lit ''content''))"
    by (simp add: try_content_error)
  then show "respond (fst (chat_endpoint search_tool chain request)) =
               \<lparr>status = 500,
                body = JObj [(lit ''detail'', JStr (str_exn (KeyError (lit ''content''))))]\<rparr>"
    by (simp only: endpoint_Inl fst_conv respond.simps)
next
  fix raw_results cs res a
  assume h: "search_tool max_results (query request) = Inr raw_results \<and>
        map (\<lambda>r. r (lit ''content'')) raw_results = map Some cs \<and>
        res \<in> set raw_results \<and> res (lit ''url'') = None \<and>
        chain \<lparr>inp_context = join (lit ''\<newline>\<newline>'') cs, inp_question = query request,
               inp_chat_history = format_history (history request)\<rparr> = Inr a"
  then have cs: "contents_of raw_results = Inr cs"
    by (simp add: contents_of_Inr)
  from h have "\<forall>r \<in> set raw_results. r (lit ''content'') \<noteq> None"
    by (blast dest: contents_all_present)
  with h have src: "sources_of raw_results = Inl (KeyError (lit ''url''))"
    using sources_of_missing_url [of raw_results res] by simp
  from h cs src
  have t: "fst (chat_endpoint_try search_tool chain request) = Inl (KeyError (lit ''url''))"
    by (simp add: try_sources_error)
  from h cs
  show "ChainInvoke \<lparr>inp_context = join (lit ''\<newline>\<newline>'') cs, inp_question = query request,
                     inp_chat_history = format_history (history request)\<rparr>
          \<in> set (snd (chat_endpoint search_tool chain request))"
    by (simp add: chain_invoked_iff)
  from t
  show "respond (fst (chat_endpoint search_tool chain request)) =
          \<lparr>status = 500,
           body = JObj [(lit ''detail'', JStr (str_exn (KeyError (lit ''url''))))]\<rparr>"
    by (simp only: endpoint_Inl fst_conv respond.simps)
qed

text \<open>
  The theorem on a result list whose second entry has no url, and on one whose only entry
  has no content.
\<close>

theorem every_exception_gives_500_witness:
  "stub_search [stub_result_short, stub_result_no_url] max_results (query stub_request) =
     Inr [stub_result_short, stub_result_no_url] \<and>
   stub_result_no_url \<in> set [stub_result_short, stub_result_no_url] \<and>
   stub_result_no_url (lit ''url'') = None \<and>
   ChainInvoke \<lparr>inp_context = lit ''short text\<newline>\<newline>no link'', inp_question = lit ''what?'',
                inp_chat_history = [HumanMessage (lit ''hi'')]\<rparr>
     \<in> set (snd (chat_endpoint (stub_search [stub_result_short, stub_result_no_url]) stub_chain
                   stub_request)) \<and>
   respond (fst (chat_endpoint (stub_search [stub_result_short, stub_result_no_url]) stub_chain
                   stub_request)) =
     \<lparr>status = 500, body = JObj [(lit ''detail'', JStr (lit [CHR 0x27] @ lit ''url'' @ lit [CHR 0x27]))]\<rparr> \<and>
   stub_search [stub_result_no_content] max_results (query stub_request) =
     Inr [stub_result_no_content] \<and>
   stub_result_no_content (lit ''content'') = None \<and>
   respond (fst (chat_endpoint (stub_search [stub_result_no_content]) stub_chain stub_request)) =
     \<lparr>status = 500,
      body = JObj [(lit ''detail'', JStr (lit [CHR 0x27] @ lit ''content'' @ lit [CHR 0x27]))]\<rparr>"
proof -
  let ?rs = "[stub_result_short, stub_result_no_url]"
  let ?cs = "[lit ''short text'', lit ''no link'']"
  have a1: "stub_search ?rs max_results (query stub_request) = Inr ?rs"
    by (simp add: stub_search_def max_results_def)
  have a2: "stub_result_no_url \<in> set ?rs"
    by simp
  have a3: "stub_result_no_url (lit ''url'') = None"
    by (simp add: stub_result_no_url_def lit_def)
  have a4: "map (\<lambda>r. r (lit ''content'')) ?rs = map Some ?cs"
    by (simp add: stub_defs lit_def)
  have a5: "stub_chain \<lparr>inp_context = join (lit ''\<newline>\<newline>'') ?cs, inp_question = query stub_request,
                        inp_chat_history = format_history (history stub_request)\<rparr> =
              Inr (lit ''an answer'')"
    by (simp add: stub_chain_def)
  note t = every_exception_gives_500 [of "stub_search ?rs" stub_chain stub_request]
  note url = t [THEN conjunct2, THEN conjunct2, rule_format,
      OF conjI [OF a1 conjI [OF a4 conjI [OF a2 conjI [OF a3 a5]]]]]
  have u1: "ChainInvoke \<lparr>inp_context = lit ''short text\<newline>\<newline>no link'', inp_question = lit ''what?'',
                inp_chat_history = [HumanMessage (lit ''hi'')]\<rparr>
     \<in> set (snd (chat_endpoint (stub_search ?rs) stub_chain stub_request))"
    using url [THEN conjunct1] by (simp add: stub_request_def format_history_def lit_def)
  have u2: "respond (fst (chat_endpoint (stub_search ?rs) stub_chain stub_request)) =
     \<lparr>status = 500, body = JObj [(lit ''detail'', JStr (lit [CHR 0x27] @ lit ''url'' @ lit [CHR 0x27]))]\<rparr>"
    using url [THEN conjunct2] by simp
  have b1: "stub_search [stub_result_no_content] max_results (query stub_request) =
              Inr [stub_result_no_content]"
    by (simp add: stub_search_def max_results_def)
  have b2: "stub_result_no_content \<in> set [stub_result_no_content]"
    by simp
  have b3: "stub_result_no_content (lit ''content'') = None"
    by (simp add: stub_result_no_content_def lit_def)
  note t' = every_exception_gives_500 [of "stub_search [stub_result_no_content]" stub_chain
      stub_request]
  have c: "respond (fst (chat_endpoint (stub_search [stub_result_no_content]) stub_chain
                           stub_request)) =
     \<lparr>status = 500,
      body = JObj [(lit ''detail'', JStr (lit [CHR 0x27] @ lit ''content'' @ lit [CHR 0x27]))]\<rparr>"
    using t' [THEN conjunct2, THEN conjunct1, rule_format, OF conjI [OF b1 conjI [OF b2 b3]]]
    by simp
  show ?thesis
    by (rule conjI [OF a1 conjI [OF a2 conjI [OF a3 conjI [OF u1 conjI [OF u2
          conjI [OF b1 conjI [OF b3 c]]]]]]])
qed

section \<open>The search call\<close>

lemma try_log_head:
  "\<exists>log. snd (chat_endpoint_try search_tool chain request) =
            SearchInvoke max_results (query request) # log \<and>
          (\<forall>n q. SearchInvoke n q \<notin> set log)"
  by (auto simp: chat_endpoint_try_def Let_def split: sum.splits)

lemma endpoint_log_head:
  "\<exists>log. snd (chat_endpoint search_tool chain request) =
            SearchInvoke max_results (query request) # log \<and>
          (\<forall>n q. SearchInvoke n q \<notin> set log)"
proof -
  from try_log_head [of search_tool chain request] obtain log where
    "snd (chat_endpoint_try search_tool chain request) =
       SearchInvoke max_results (query request) # log"
    "\<forall>n q. SearchInvoke n q \<notin> set log"
    by blast
  then show ?thesis
    by (simp add: endpoint_log split: sum.splits)
qed

text \<open>
  Claim C8, as amended. Each request invokes the search provider exactly once, first of
  all, with the result cap 3 and the query, and works on the whole list that call returns,
  without truncating it: if the call raises, the response is the 500 of that error, and a
  successful response has exactly as many sources as the call returned results. So the
  list has at most 3 entries whenever the provider honours the cap it is called with.
\<close>

theorem search_results_not_truncated:
  "(\<exists>log. snd (chat_endpoint search_tool chain request) = SearchInvoke 3 (query request) # log \<and>
          (\<forall>n q. SearchInvoke n q \<notin> set log)) \<and>
   (\<forall>e. search_tool 3 (query request) = Inl e \<longrightarrow>
        respond (fst (chat_endpoint search_tool chain request)) =
          \<lparr>status = 500, body = JObj [(lit ''detail'', JStr (str_exn e))]\<rparr>) \<and>
   (\<forall>raw_results.
        search_tool 3 (query request) = Inr raw_results \<and>
        status (respond (fst (chat_endpoint search_tool chain request))) = 200 \<longrightarrow>
        (\<exists>ss. field (body (respond (fst (chat_endpoint search_tool chain request))))
                 (lit ''sources'') = Some (JArr ss) \<and>
              length ss = length raw_results)) \<and>
   ((\<forall>n q rs. search_tool n q = Inr rs \<longrightarrow> length rs \<le> n) \<longrightarrow>
      (\<forall>ss. field (body (respond (fst (chat_endpoint search_tool chain request))))
              (lit ''sources'') = Some (JArr ss) \<longrightarrow> length ss \<le> 3))"
proof (intro conjI impI allI)
  show "\<exists>log. snd (chat_endpoint search_tool chain request) =
                SearchInvoke 3 (query request) # log \<and>
              (\<forall>n q. SearchInvoke n q \<notin> set log)"
    using endpoint_log_head [of search_tool chain request] by (simp add: max_results_def)
next
  fix e
  assume "search_tool 3 (query request) = Inl e"
  then have "fst (chat_endpoint_try search_tool chain request) = Inl e"
    by (simp add: try_search_error max_results_def)
  then show "respond (fst (chat_endpoint search_tool chain request)) =
               \<lparr>status = 500, body = JObj [(lit ''detail'', JStr (str_exn e))]\<rparr>"
    by (simp add: endpoint_Inl)
next
  fix raw_results
  assume h: "search_tool 3 (query request) = Inr raw_results \<and>
             status (respond (fst (chat_endpoint search_tool chain request))) = 200"
  then obtain r where r: "fst (chat_endpoint search_tool chain request) = Inr r"
    using endpoint_status_200 [of search_tool chain request] by blast
  then obtain rs cs response sources where
    rs: "search_tool max_results (query request) = Inr rs" and
    "contents_of rs = Inr cs" and
    src: "sources_of rs = Inr sources" and
    r_eq: "r = JObj [(lit ''answer'', JStr response), (lit ''sources'', JArr sources)]"
    by (rule endpoint_success_cases)
  from rs h have "rs = raw_results" by (simp add: max_results_def)
  with src have "length sources = length raw_results"
    by (simp add: sources_of_Inr_length)
  moreover have "field (body (respond (fst (chat_endpoint search_tool chain request))))
                   (lit ''sources'') = Some (JArr sources)"
    by (simp add: r r_eq lit_def)
  ultimately
  show "\<exists>ss. field (body (respond (fst (chat_endpoint search_tool chain request))))
                (lit ''sources'') = Some (JArr ss) \<and>
             length ss = length raw_results"
    by blast
next
  fix ss
  assume cap: "\<forall>n q rs. search_tool n q = Inr rs \<longrightarrow> length rs \<le> n"
     and f: "field (body (respond (fst (chat_endpoint search_tool chain request))))
               (lit ''sources'') = Some (JArr ss)"
  show "length ss \<le> 3"
  proof (cases "fst (chat_endpoint_try search_tool chain request)")
    case (Inl e)
    with f show ?thesis by (simp add: endpoint_Inl lit_def)
  next
    case (Inr r)
    then have "fst (chat_endpoint search_tool chain request) = Inr r"
      by (simp add: endpoint_Inr)
    then obtain raw_results cs response sources where
      rs: "search_tool max_results (query request) = Inr raw_results" and
      "contents_of raw_results = Inr cs" and
      src: "sources_of raw_results = Inr sources" and
      r: "r = JObj [(lit ''answer'', JStr response), (lit ''sources'', JArr sources)]"
      by (rule endpoint_success_cases)
    from f Inr r have "ss = sources" by (simp add: endpoint_Inr lit_def)
    moreover from src have "length sources = length raw_results"
      by (rule sources_of_Inr_length)
    moreover from cap rs have "length raw_results \<le> max_results" by blast
    ultimately show ?thesis by (simp add: max_results_def)
  qed
qed

text \<open>
  The theorem on the stub provider that holds four results and honours the cap, and on the
  failing one.
\<close>

theorem search_results_not_truncated_witness:
  "(\<exists>log. snd (chat_endpoint (stub_search stub_results_four) stub_chain stub_request) =
            SearchInvoke 3 (query stub_request) # log \<and>
          (\<forall>n q. SearchInvoke n q \<notin> set log)) \<and>
   stub_search_failing 3 (query stub_request) = Inl (OtherException (lit ''quota exceeded'')) \<and>
   respond (fst (chat_endpoint stub_search_failing stub_chain stub_request)) =
     \<lparr>status = 500, body = JObj [(lit ''detail'', JStr (lit ''quota exceeded''))]\<rparr> \<and>
   stub_search stub_results_four 3 (query stub_request) =
     Inr [stub_result_short, stub_result_long, stub_result_long] \<and>
   status (respond (fst (chat_endpoint (stub_search stub_results_four) stub_chain
                           stub_request))) = 200 \<and>
   (\<exists>ss. field (body (respond (fst (chat_endpoint (stub_search stub_results_four) stub_chain
                                       stub_request))))
            (lit ''sources'') = Some (JArr ss) \<and>
         length ss = length [stub_result_short, stub_result_long, stub_result_long]) \<and>
   (\<exists>ss. field (body (respond (fst (chat_endpoint (stub_search stub_results_four) stub_chain
                                       stub_request))))
            (lit ''sources'') = Some (JArr ss) \<and> length ss \<le> 3)"
proof -
  have h: "\<forall>n q rs. stub_search stub_results_four n q = Inr rs \<longrightarrow> length rs \<le> n"
    by (auto simp: stub_search_def)
  have r: "stub_search stub_results_four 3 (query stub_request) =
             Inr [stub_result_short, stub_result_long, stub_result_long]"
    by (simp add: stub_search_def stub_results_four_def)
  have s: "status (respond (fst (chat_endpoint (stub_search stub_results_four) stub_chain
                                   stub_request))) = 200"
    by (simp add: run_defs stub_defs lit_def)
  have x: "stub_search_failing 3 (query stub_request) =
             Inl (OtherException (lit ''quota exceeded''))"
    by (simp add: stub_search_failing_def)
  note t = search_results_not_truncated
      [of "stub_search stub_results_four" stub_chain stub_request]
  note t' = search_results_not_truncated [of stub_search_failing stub_chain stub_request]
  note c1 = t' [THEN conjunct2, THEN conjunct1, rule_format, OF x, unfolded str_exn.simps]
  note c2 = t [THEN conjunct2, THEN conjunct2, THEN conjunct1, rule_format, OF conjI [OF r s]]
  note cap = t [THEN conjunct2, THEN conjunct2, THEN conjunct2, THEN mp, OF h]
  from c2 cap
  have c3: "\<exists>ss. field (body (respond (fst (chat_endpoint (stub_search stub_results_four)
                                                stub_chain stub_request))))
                   (lit ''sources'') = Some (JArr ss) \<and> length ss \<le> 3"
    by blast
  show ?thesis
    by (rule conjI [OF t [THEN conjunct1] conjI [OF x conjI [OF c1 conjI [OF r
          conjI [OF s conjI [OF c2 c3]]]]]])
qed

text \<open>
  Claim C8 as stated fails: the handler does not cut the list itself. With a provider that
  returns four results to the call with cap 3, all four are turned into sources.
\<close>

theorem uncapped_provider_counterexample:
  "stub_search_uncapped stub_results_four 3 (query stub_request) = Inr stub_results_four \<and>
   length stub_results_four = 4 \<and>
   field (body (respond (fst (chat_endpoint (stub_search_uncapped stub_results_four) stub_chain
                                stub_request))))
     (lit ''sources'') =
     Some (JArr
       [JObj [(lit ''title'', JStr (lit ''short text...'')), (lit ''url'', JStr (lit ''http://a''))],
        JObj [(lit ''title'', JStr (lit ''0123456789012345678901234567890123456789...'')),
              (lit ''url'', JStr (lit ''http://b''))],
        JObj [(lit ''title'', JStr (lit ''0123456789012345678901234567890123456789...'')),
              (lit ''url'', JStr (lit ''http://b''))],
        JObj [(lit ''title'', JStr (lit ''short text...'')), (lit ''url'', JStr (lit ''http://a''))]])"
  by (simp add: run_defs stub_defs lit_def)

section \<open>What validation accepts as a query\<close>

text \<open>
  Claim C7, as amended. A body is accepted with the query \<open>q\<close> exactly when its
  \<open>query\<close> field is the JSON string \<open>q\<close> and its \<open>history\<close> field is absent or a valid
  list of messages. No condition is put on \<open>q\<close> itself: the empty string is accepted.
\<close>

theorem query_validation:
  "(\<exists>h. validate_QueryRequest (JObj kvs) = Inr \<lparr>query = q, history = h\<rparr>) \<longleftrightarrow>
     map_of kvs (lit ''query'') = Some (JStr q) \<and>
     (\<exists>h. validate_history (map_of kvs (lit ''history'')) = Inr h)"
proof (cases "map_of kvs (lit ''query'')")
  case None
  then show ?thesis by simp
next
  case (Some j)
  then show ?thesis
    by (cases j) (auto split: sum.splits)
qed

text \<open>
  The theorem on the body \<open>{"query": ""}\<close>.
\<close>

theorem query_validation_witness:
  "map_of [(lit ''query'', JStr [])] (lit ''query'') = Some (JStr []) \<and>
   (\<exists>h. validate_history (map_of [(lit ''query'', JStr [])] (lit ''history'')) = Inr h) \<and>
   (\<exists>h. validate_QueryRequest (JObj [(lit ''query'', JStr [])]) = Inr \<lparr>query = [], history = h\<rparr>)"
proof -
  have h1: "map_of [(lit ''query'', JStr [])] (lit ''query'') = Some (JStr [])"
    by simp
  have h2: "\<exists>h. validate_history (map_of [(lit ''query'', JStr [])] (lit ''history'')) = Inr h"
    by (simp add: lit_def)
  from query_validation [of "[(lit ''query'', JStr [])]" "[]", THEN iffD2, OF conjI [OF h1 h2]]
  have c: "\<exists>h. validate_QueryRequest (JObj [(lit ''query'', JStr [])]) =
                 Inr \<lparr>query = [], history = h\<rparr>" .
  show ?thesis
    by (rule conjI [OF h1 conjI [OF h2 c]])
qed

text \<open>
  Claim C7 as stated fails: the body \<open>{"query": ""}\<close> passes validation, and the handler
  then serves the empty query like any other.
\<close>

theorem empty_query_accepted_counterexample:
  "validate_QueryRequest (JObj [(lit ''query'', JStr [])]) = Inr \<lparr>query = [], history = []\<rparr> \<and>
   status (respond (fst (chat_endpoint (stub_search stub_results_two) stub_chain
                           \<lparr>query = [], history = []\<rparr>))) = 200"
  by (simp add: run_defs stub_defs lit_def)

end
